theory Spec2Isabelle
  imports Main
begin

section \<open>The live-update client: \<open>WebSocketService\<close>\<close>

text \<open>
  The class \<open>WebSocketService\<close> (the service file of the frontend, lines 131 to 283 of the
  concatenated source) keeps one WebSocket to the server. Its methods mutate the six fields
  of the instance and act on the platform: the WebSocket objects it constructed, the timers
  it armed, the Redux store and the console. The model passes one record \<open>world\<close> through
  every method: the six fields, followed by the part of the platform the methods touch.
\<close>

subsection \<open>Values\<close>

text \<open>
  A parsed JSON value, as \<open>JSON.parse\<close> returns it. An object is the list of its own
  properties. Numbers are never inspected by the client.
\<close>

datatype json =
    JNull
  | JBool bool
  | JNum int
  | JStr string
  | JArr "json list"
  | JObj "(string \<times> json) list"

text \<open>The exceptions of the platform calls the client makes.\<close>

datatype exn = SyntaxError | TypeError | InvalidStateError | InvalidAccessError

text \<open>A Redux action \<open>{ type, payload }\<close>; a payload \<open>None\<close> is \<open>undefined\<close>.\<close>

datatype action = Action string "json option"

text \<open>A console line: the level and the first argument of the call.\<close>

datatype console_line = ConsoleLog string | ConsoleError string

text \<open>\<open>WebSocket.readyState\<close>: CONNECTING = 0, OPEN = 1, CLOSING = 2, CLOSED = 3.\<close>

datatype ready_state = CONNECTING | OPEN | CLOSING | CLOSED

text \<open>
  The two functions \<open>connect\<close> assigns to \<open>onopen\<close>: the bound method \<open>handleOpen\<close>, and the
  closure that sends the bearer token it captured. The other three handlers of a socket are
  always \<open>handleMessage\<close>, \<open>handleClose\<close> and \<open>handleError\<close> of the one service instance.
\<close>

datatype onopen_handler = HandleOpen | SendAuthorization string

text \<open>
  A WebSocket object: \<open>written\<close> holds the data the transport accepted from \<open>send\<close>, in
  order (the value given to \<open>JSON.stringify\<close> stands for its text); \<open>close_request\<close> holds
  the arguments of the \<open>close\<close> call that started the closing handshake.
\<close>

record websocket =
  url :: string
  readyState :: ready_state
  onopen :: onopen_handler
  written :: "json list"
  close_request :: "(nat \<times> string) option"

text \<open>
  The fields of the instance, then the platform: the WebSocket objects constructed so far
  (a reference is an index into \<open>sockets\<close>), the pending \<open>setTimeout\<close> calls with their
  delays, the live \<open>setInterval\<close> handles, the next timer handle, the token in the store,
  \<open>process.env.REACT_APP_WS_URL\<close> as the template literal prints it, the URLs the WebSocket
  constructor accepts, the actions dispatched to the store and the console.
\<close>

record world =
  socket :: "nat option"
  reconnectAttempts :: nat
  maxReconnectAttempts :: nat
  reconnectTimeout :: nat
  pingInterval :: "nat option"
  userId :: "string option"
  sockets :: "websocket list"
  timeouts :: "(nat \<times> nat) list"
  intervals :: "nat list"
  next_timer :: nat
  token :: "string option"
  ws_base :: string
  url_ok :: "string \<Rightarrow> bool"
  dispatched :: "action list"
  console :: "console_line list"

text \<open>The instance as the field initialisers leave it, on a platform with nothing armed.\<close>

definition new_service :: "string option \<Rightarrow> string \<Rightarrow> (string \<Rightarrow> bool) \<Rightarrow> world" where
  "new_service tok base ok =
     \<lparr> socket = None, reconnectAttempts = 0, maxReconnectAttempts = 5,
       reconnectTimeout = 1000, pingInterval = None, userId = None,
       sockets = [], timeouts = [], intervals = [], next_timer = 1,
       token = tok, ws_base = base, url_ok = ok, dispatched = [], console = [] \<rparr>"

subsection \<open>The platform\<close>

text \<open>A string or null in a condition: null and the empty string are falsy.\<close>

fun truthy :: "string option \<Rightarrow> bool" where
  "truthy None = False"
| "truthy (Some s) = (s \<noteq> [])"

text \<open>A string or null inside a template literal.\<close>

fun template :: "string option \<Rightarrow> string" where
  "template None = ''null''"
| "template (Some s) = s"

definition console_log :: "string \<Rightarrow> world \<Rightarrow> world" where
  "console_log s w = w\<lparr>console := console w @ [ConsoleLog s]\<rparr>"

definition console_error :: "string \<Rightarrow> world \<Rightarrow> world" where
  "console_error s w = w\<lparr>console := console w @ [ConsoleError s]\<rparr>"

definition store_dispatch :: "action \<Rightarrow> world \<Rightarrow> world" where
  "store_dispatch a w = w\<lparr>dispatched := dispatched w @ [a]\<rparr>"

text \<open>\<open>this.socket?.readyState\<close>: undefined (\<open>None\<close>) when the field is null.\<close>

definition socket_readyState :: "world \<Rightarrow> ready_state option" where
  "socket_readyState w =
     (case socket w of
        None \<Rightarrow> None
      | Some i \<Rightarrow> if i < length (sockets w) then Some (readyState (sockets w ! i)) else None)"

text \<open>
  \<open>new WebSocket(url)\<close> throws \<open>SyntaxError\<close> on a URL it does not accept; otherwise the new
  object is CONNECTING and has no handler yet (\<open>connect\<close> assigns \<open>onopen\<close> next, so the
  model creates it with \<open>handleOpen\<close>, the first assignment).
\<close>

definition new_WebSocket :: "string \<Rightarrow> world \<Rightarrow> exn + (nat \<times> world)" where
  "new_WebSocket u w =
     (if url_ok w u
      then Inr (length (sockets w),
                w\<lparr>sockets := sockets w @
                   [\<lparr> url = u, readyState = CONNECTING, onopen = HandleOpen,
                      written = [], close_request = None \<rparr>]\<rparr>)
      else Inl SyntaxError)"

text \<open>
  \<open>WebSocket.send\<close>: throws \<open>InvalidStateError\<close> while CONNECTING, hands the data to the
  transport while OPEN, and discards it while CLOSING or CLOSED.
\<close>

definition ws_send :: "nat \<Rightarrow> json \<Rightarrow> world \<Rightarrow> exn + world" where
  "ws_send i d w =
     (if i < length (sockets w) then
        (case readyState (sockets w ! i) of
           CONNECTING \<Rightarrow> Inl InvalidStateError
         | OPEN \<Rightarrow> Inr (w\<lparr>sockets := (sockets w)[i := (sockets w ! i)\<lparr>written := written (sockets w ! i) @ [d]\<rparr>]\<rparr>)
         | CLOSING \<Rightarrow> Inr w
         | CLOSED \<Rightarrow> Inr w)
      else Inl TypeError)"

text \<open>
  \<open>WebSocket.close(code, reason)\<close>: throws \<open>InvalidAccessError\<close> unless the code is 1000 or
  in 3000..4999, and \<open>SyntaxError\<close> on a reason longer than 123 bytes; does nothing on a
  socket that is CLOSING or CLOSED; otherwise the socket becomes CLOSING.
\<close>

definition ws_close :: "nat \<Rightarrow> nat \<Rightarrow> string \<Rightarrow> world \<Rightarrow> exn + world" where
  "ws_close i code reason w =
     (if \<not> (code = 1000 \<or> (3000 \<le> code \<and> code \<le> 4999)) then Inl InvalidAccessError
      else if 123 < length reason then Inl SyntaxError
      else if i < length (sockets w) then
        (case readyState (sockets w ! i) of
           CLOSING \<Rightarrow> Inr w
         | CLOSED \<Rightarrow> Inr w
         | _ \<Rightarrow> Inr (w\<lparr>sockets := (sockets w)[i := (sockets w ! i)
                      \<lparr>readyState := CLOSING, close_request := Some (code, reason)\<rparr>]\<rparr>))
      else Inl TypeError)"

text \<open>\<open>setTimeout\<close>, \<open>setInterval\<close> and \<open>clearInterval\<close>; handles come from one counter.\<close>

definition setTimeout :: "nat \<Rightarrow> world \<Rightarrow> world" where
  "setTimeout delay w =
     w\<lparr>timeouts := timeouts w @ [(next_timer w, delay)], next_timer := Suc (next_timer w)\<rparr>"

definition setInterval :: "world \<Rightarrow> nat \<times> world" where
  "setInterval w =
     (next_timer w, w\<lparr>intervals := intervals w @ [next_timer w], next_timer := Suc (next_timer w)\<rparr>)"

definition clearInterval :: "nat \<Rightarrow> world \<Rightarrow> world" where
  "clearInterval h w = w\<lparr>intervals := removeAll h (intervals w)\<rparr>"

text \<open>
  Reading the property \<open>type\<close> or \<open>data\<close> of a parsed value: a \<open>TypeError\<close> on null, the
  own property of an object, and undefined on a boolean, number, string or array.
\<close>

fun get_prop :: "json \<Rightarrow> string \<Rightarrow> exn + json option" where
  "get_prop JNull k = Inl TypeError"
| "get_prop (JObj kvs) k = Inr (map_of kvs k)"
| "get_prop _ k = Inr None"

subsection \<open>The methods\<close>

text \<open>
  \<open>connect(userId)\<close>. The result is the exception thrown, if any, and the state the call
  leaves. The assignment of \<open>handleOpen\<close> to \<open>onopen\<close> is overwritten when the token is truthy.
\<close>

definition connect :: "string option \<Rightarrow> world \<Rightarrow> exn option \<times> world" where
  "connect uid w =
     (if socket_readyState w = Some OPEN then (None, w)
      else
        let w1 = w\<lparr>userId := uid\<rparr>;
            tok = token w1;
            wsUrl = ws_base w1 @ ''/ws/'' @ template uid
        in case new_WebSocket wsUrl w1 of
             Inl e \<Rightarrow> (Some e, w1)
           | Inr (i, w2) \<Rightarrow>
               let w3 = w2\<lparr>socket := Some i\<rparr>
               in if truthy tok
                  then (None, w3\<lparr>sockets := (sockets w3)[i := (sockets w3 ! i)
                                   \<lparr>onopen := SendAuthorization (template tok)\<rparr>]\<rparr>)
                  else (None, w3))"

text \<open>\<open>send(data)\<close>.\<close>

definition send :: "json \<Rightarrow> world \<Rightarrow> exn option \<times> world" where
  "send d w =
     (if socket_readyState w = Some OPEN then
        (case socket w of
           None \<Rightarrow> (Some TypeError, w)
         | Some i \<Rightarrow> (case ws_send i d w of Inl e \<Rightarrow> (Some e, w) | Inr w' \<Rightarrow> (None, w')))
      else (None, console_error ''WebSocket is not connected'' w))"

text \<open>\<open>handleOpen()\<close>; the interval's callback is \<open>ping_callback\<close> below.\<close>

definition handleOpen :: "world \<Rightarrow> world" where
  "handleOpen w =
     (let w1 = console_log ''WebSocket connected'' w;
          w2 = w1\<lparr>reconnectAttempts := 0, reconnectTimeout := 1000\<rparr>;
          (h, w3) = setInterval w2
      in w3\<lparr>pingInterval := Some h\<rparr>)"

definition ping :: json where
  "ping = JObj [(''type'', JStr ''ping'')]"

definition ping_callback :: "world \<Rightarrow> exn option \<times> world" where
  "ping_callback w = send ping w"

text \<open>The closure \<open>connect\<close> puts in \<open>onopen\<close> when there is a token.\<close>

definition authorization :: "string \<Rightarrow> json" where
  "authorization tok = JObj [(''authorization'', JStr (''Bearer '' @ tok))]"

definition send_authorization :: "string \<Rightarrow> world \<Rightarrow> exn option \<times> world" where
  "send_authorization tok w =
     (case socket w of
        None \<Rightarrow> (None, w)
      | Some i \<Rightarrow> (case ws_send i (authorization tok) w of
                    Inl e \<Rightarrow> (Some e, w)
                  | Inr w' \<Rightarrow> (None, w')))"

text \<open>
  \<open>handleMessage(event)\<close>: the body of the \<open>try\<close>, then the method with its \<open>catch\<close>. The
  argument is \<open>JSON.parse(event.data)\<close>, \<open>None\<close> when the parse throws.
\<close>

definition dispatch_data :: "string \<Rightarrow> json \<Rightarrow> world \<Rightarrow> exn + world" where
  "dispatch_data ty message w =
     (case get_prop message ''data'' of
        Inl e \<Rightarrow> Inl e
      | Inr d \<Rightarrow> Inr (store_dispatch (Action ty d) w))"

definition handleMessage_try :: "json option \<Rightarrow> world \<Rightarrow> exn + world" where
  "handleMessage_try parsed w =
     (case parsed of
        None \<Rightarrow> Inl SyntaxError
      | Some message \<Rightarrow>
          (case get_prop message ''type'' of
             Inl e \<Rightarrow> Inl e
           | Inr ty \<Rightarrow>
               if ty = Some (JStr ''pong'') then Inr w
               else if ty = Some (JStr ''chat_message'')
                 then dispatch_data ''chat/messageReceived'' message w
               else if ty = Some (JStr ''goal_update'')
                 then dispatch_data ''goals/goalUpdated'' message w
               else if ty = Some (JStr ''transaction_update'')
                 then dispatch_data ''finance/transactionUpdated'' message w
               else if ty = Some (JStr ''post_update'')
                 then dispatch_data ''community/postUpdated'' message w
               else Inr (console_log ''Unhandled message type:'' w)))"

definition handleMessage :: "json option \<Rightarrow> world \<Rightarrow> world" where
  "handleMessage parsed w =
     (case handleMessage_try parsed w of
        Inl e \<Rightarrow> console_error ''Error parsing WebSocket message:'' w
      | Inr w' \<Rightarrow> w')"

text \<open>
  \<open>attemptReconnect()\<close>; the timeout's callback is \<open>reconnect_callback\<close> below (the
  counts that its console line prints are left out of the line).
\<close>

definition attemptReconnect :: "world \<Rightarrow> world" where
  "attemptReconnect w =
     (if reconnectAttempts w < maxReconnectAttempts w \<and> truthy (userId w)
      then setTimeout (reconnectTimeout w) w
      else store_dispatch
             (Action ''app/websocketError'' (Some (JStr ''Unable to establish WebSocket connection'')))
             (console_error ''Max reconnection attempts reached'' w))"

definition reconnect_callback :: "world \<Rightarrow> exn option \<times> world" where
  "reconnect_callback w =
     (let w1 = console_log ''Attempting to reconnect...'' w
      in case connect (userId w1) w1 of
           (Some e, w2) \<Rightarrow> (Some e, w2)
         | (None, w2) \<Rightarrow>
             (None, w2\<lparr>reconnectAttempts := reconnectAttempts w2 + 1,
                       reconnectTimeout := reconnectTimeout w2 * 2\<rparr>))"

text \<open>\<open>handleClose(event)\<close>, on \<open>event.code\<close>, and \<open>handleError(error)\<close>.\<close>

definition handleClose :: "nat \<Rightarrow> world \<Rightarrow> world" where
  "handleClose code w =
     (let w1 = console_log ''WebSocket disconnected:'' w;
          w2 = (case pingInterval w1 of
                  Some h \<Rightarrow> (clearInterval h w1)\<lparr>pingInterval := None\<rparr>
                | None \<Rightarrow> w1)
      in if code \<noteq> 1000 then attemptReconnect w2 else w2)"

definition handleError :: "world \<Rightarrow> world" where
  "handleError w = console_error ''WebSocket error:'' w"

text \<open>\<open>disconnect()\<close>.\<close>

definition disconnect :: "world \<Rightarrow> exn option \<times> world" where
  "disconnect w =
     (case (case socket w of
              Some i \<Rightarrow> (case ws_close i 1000 ''User disconnected'' w of
                          Inl e \<Rightarrow> Inl e
                        | Inr w1 \<Rightarrow> Inr (w1\<lparr>socket := None\<rparr>))
            | None \<Rightarrow> Inr w) of
        Inl e \<Rightarrow> (Some e, w)
      | Inr w2 \<Rightarrow>
          (case pingInterval w2 of
             Some h \<Rightarrow> (None, (clearInterval h w2)\<lparr>pingInterval := None\<rparr>)
           | None \<Rightarrow> (None, w2)))"

subsection \<open>The event loop\<close>

text \<open>
  What can happen to the instance: a call of one of its three public methods, a change of
  the token in the store, an event of the transport on one of the sockets, and the firing
  of a timer. The transport fires \<open>open\<close> once, on a CONNECTING socket, which becomes OPEN;
  it delivers messages to an OPEN socket; it fires \<open>close\<close> once, and the socket is CLOSED
  from then on. An exception that leaves a callback ends the callback and is reported by
  the runtime; one that leaves a public method reaches the caller. Either way the state is
  the one the exception left.
\<close>

datatype event =
    Connect string
  | Send json
  | Disconnect
  | SetToken "string option"
  | SockOpen nat
  | SockMessage nat "json option"
  | SockClose nat nat
  | SockError nat
  | TimeoutFire nat
  | IntervalFire nat

definition set_readyState :: "nat \<Rightarrow> ready_state \<Rightarrow> world \<Rightarrow> world" where
  "set_readyState i r w = w\<lparr>sockets := (sockets w)[i := (sockets w ! i)\<lparr>readyState := r\<rparr>]\<rparr>"

definition fire_onopen :: "nat \<Rightarrow> world \<Rightarrow> world" where
  "fire_onopen i w =
     (case onopen (sockets w ! i) of
        HandleOpen \<Rightarrow> handleOpen w
      | SendAuthorization tok \<Rightarrow> snd (send_authorization tok w))"

fun step :: "event \<Rightarrow> world \<Rightarrow> world" where
  "step (Connect u) w = snd (connect (Some u) w)"
| "step (Send d) w = snd (send d w)"
| "step Disconnect w = snd (disconnect w)"
| "step (SetToken t) w = w\<lparr>token := t\<rparr>"
| "step (SockOpen i) w =
     (if i < length (sockets w) \<and> readyState (sockets w ! i) = CONNECTING
      then fire_onopen i (set_readyState i OPEN w) else w)"
| "step (SockMessage i m) w =
     (if i < length (sockets w) \<and> readyState (sockets w ! i) = OPEN
      then handleMessage m w else w)"
| "step (SockClose i code) w =
     (if i < length (sockets w) \<and> readyState (sockets w ! i) \<noteq> CLOSED
      then handleClose code (set_readyState i CLOSED w) else w)"
| "step (SockError i) w =
     (if i < length (sockets w) then handleError w else w)"
| "step (TimeoutFire h) w =
     (if h \<in> fst ` set (timeouts w)
      then snd (reconnect_callback (w\<lparr>timeouts := filter (\<lambda>p. fst p \<noteq> h) (timeouts w)\<rparr>))
      else w)"
| "step (IntervalFire h) w =
     (if h \<in> set (intervals w) then snd (ping_callback w) else w)"

fun run :: "event list \<Rightarrow> world \<Rightarrow> world" where
  "run [] w = w"
| "run (e # es) w = run es (step e w)"

subsection \<open>Notions used in the statements\<close>

text \<open>A platform whose WebSocket constructor accepts every URL.\<close>

definition accepts_all :: "string \<Rightarrow> bool" where
  "accepts_all u = True"

text \<open>The socket field is null or refers to a WebSocket object that was constructed.\<close>

definition valid_refs :: "world \<Rightarrow> bool" where
  "valid_refs w = (case socket w of None \<Rightarrow> True | Some i \<Rightarrow> i < length (sockets w))"

text \<open>The state without what was printed: two states with the same \<open>mute\<close> differ in the console only.\<close>

definition mute :: "world \<Rightarrow> world" where
  "mute w = w\<lparr>console := []\<rparr>"

text \<open>
  The \<open>case\<close> labels of the \<open>switch\<close> in \<open>handleMessage\<close>: the types the client has an
  entry for. The entry of \<open>pong\<close> is empty; each of the other four dispatches one action
  to the store.
\<close>

definition registered_types :: "string list" where
  "registered_types =
     [''pong'', ''chat_message'', ''goal_update'', ''transaction_update'', ''post_update'']"

text \<open>
  The value \<open>handleMessage\<close> switches on: \<open>None\<close> when the payload does not parse, parses
  to null, or has no property \<open>type\<close>.
\<close>

definition message_type :: "json option \<Rightarrow> json option" where
  "message_type parsed =
     (case parsed of
        None \<Rightarrow> None
      | Some message \<Rightarrow> (case get_prop message ''type'' of Inl e \<Rightarrow> None | Inr ty \<Rightarrow> ty))"

text \<open>The console line of a dropped message: that of the \<open>catch\<close>, or that of the \<open>default\<close> label.\<close>

definition diagnostic :: "json option \<Rightarrow> console_line" where
  "diagnostic parsed =
     (if parsed = None \<or> parsed = Some JNull
      then ConsoleError ''Error parsing WebSocket message:''
      else ConsoleLog ''Unhandled message type:'')"

text \<open>
  The three fields of the reconnection policy, and what relates them in every state the
  client reaches: the delay is the base delay doubled once per counted attempt, and the
  maximum is the initial 5.
\<close>

definition backoff :: "world \<Rightarrow> nat \<times> nat \<times> nat" where
  "backoff w = (reconnectAttempts w, reconnectTimeout w, maxReconnectAttempts w)"


section \<open>Properties\<close>

lemmas platform_defs = console_log_def console_error_def store_dispatch_def socket_readyState_def
  new_WebSocket_def ws_send_def ws_close_def setTimeout_def setInterval_def clearInterval_def

lemmas method_defs = connect_def send_def handleOpen_def ping_def ping_callback_def
  authorization_def send_authorization_def
  dispatch_data_def handleMessage_try_def handleMessage_def attemptReconnect_def
  reconnect_callback_def handleClose_def handleError_def disconnect_def set_readyState_def
  fire_onopen_def

subsection \<open>References stay valid\<close>

lemma valid_refs_new_service: "valid_refs (new_service tok base ok)"
  by (simp add: valid_refs_def new_service_def)

lemma valid_refs_step: "valid_refs w \<Longrightarrow> valid_refs (step e w)"
  by (cases e)
     (auto simp: valid_refs_def platform_defs method_defs Let_def
           split: option.splits sum.splits ready_state.splits onopen_handler.splits if_splits prod.splits)

lemma valid_refs_run: "valid_refs w \<Longrightarrow> valid_refs (run es w)"
  by (induction es arbitrary: w) (simp_all add: valid_refs_step)

subsection \<open>disconnect\<close>

lemma disconnect_no_exn: "valid_refs w \<Longrightarrow> fst (disconnect w) = None"
  by (auto simp: valid_refs_def disconnect_def ws_close_def clearInterval_def
           split: option.splits sum.splits ready_state.splits)

lemma disconnect_fields:
  "valid_refs w \<Longrightarrow> socket (snd (disconnect w)) = None \<and> pingInterval (snd (disconnect w)) = None"
  by (auto simp: valid_refs_def disconnect_def ws_close_def clearInterval_def
           split: option.splits sum.splits ready_state.splits)

lemma disconnect_absent: "socket w = None \<Longrightarrow> pingInterval w = None \<Longrightarrow> disconnect w = (None, w)"
  by (simp add: disconnect_def)

text \<open>
  C10. \<open>disconnect()\<close> throws nothing in any state the client can be in (every reachable
  state has valid references, by \<open>valid_refs_new_service\<close> and \<open>valid_refs_run\<close>); with
  no socket and no keepalive timer it changes nothing; and a second call in succession
  throws nothing and leaves exactly the state of the first.
\<close>

theorem disconnect_total_idempotent:
  "valid_refs w \<Longrightarrow>
     fst (disconnect w) = None
   \<and> (socket w = None \<and> pingInterval w = None \<longrightarrow> snd (disconnect w) = w)
   \<and> disconnect (snd (disconnect w)) = (None, snd (disconnect w))"
  using disconnect_no_exn[of w] disconnect_fields[of w]
    disconnect_absent[of "snd (disconnect w)"] disconnect_absent[of w]
  by simp

theorem disconnect_total_idempotent_witness:
  "valid_refs (run [Connect ''u'', SockOpen 0] (new_service None ''ws://h'' accepts_all))
   \<and> fst (disconnect (run [Connect ''u'', SockOpen 0] (new_service None ''ws://h'' accepts_all))) = None
   \<and> disconnect (snd (disconnect (run [Connect ''u'', SockOpen 0] (new_service None ''ws://h'' accepts_all))))
       = (None, snd (disconnect (run [Connect ''u'', SockOpen 0] (new_service None ''ws://h'' accepts_all))))
   \<and> valid_refs (new_service None ''ws://h'' accepts_all)
   \<and> socket (new_service None ''ws://h'' accepts_all) = None
   \<and> pingInterval (new_service None ''ws://h'' accepts_all) = None
   \<and> snd (disconnect (new_service None ''ws://h'' accepts_all)) = new_service None ''ws://h'' accepts_all"
  using disconnect_total_idempotent[of "run [Connect ''u'', SockOpen 0] (new_service None ''ws://h'' accepts_all)"]
    disconnect_total_idempotent[of "new_service None ''ws://h'' accepts_all"]
    valid_refs_run[OF valid_refs_new_service, of "[Connect ''u'', SockOpen 0]" None "''ws://h''" accepts_all]
    valid_refs_new_service[of None "''ws://h''" accepts_all]
  by (simp add: new_service_def)

subsection \<open>The console is write-only\<close>

text \<open>No method reads the console, so what was printed never changes what happens next.\<close>

lemma mute_connect:
  "fst (connect u (mute w)) = fst (connect u w)
   \<and> mute (snd (connect u (mute w))) = mute (snd (connect u w))"
  by (simp add: mute_def connect_def socket_readyState_def new_WebSocket_def Let_def
           split: option.splits)

lemma mute_send:
  "fst (send d (mute w)) = fst (send d w)
   \<and> mute (snd (send d (mute w))) = mute (snd (send d w))"
  by (simp add: mute_def send_def socket_readyState_def ws_send_def console_error_def
           split: option.splits ready_state.splits)

lemma mute_disconnect:
  "fst (disconnect (mute w)) = fst (disconnect w)
   \<and> mute (snd (disconnect (mute w))) = mute (snd (disconnect w))"
  by (simp add: mute_def disconnect_def ws_close_def clearInterval_def
           split: option.splits ready_state.splits)

lemma mute_handleOpen: "mute (handleOpen (mute w)) = mute (handleOpen w)"
  by (simp add: mute_def handleOpen_def console_log_def setInterval_def Let_def)

lemma mute_send_authorization:
  "mute (snd (send_authorization t (mute w))) = mute (snd (send_authorization t w))"
  by (simp add: mute_def send_authorization_def ws_send_def
           split: option.splits ready_state.splits)

lemma mute_handleMessage: "mute (handleMessage m (mute w)) = mute (handleMessage m w)"
  by (simp add: mute_def handleMessage_def handleMessage_try_def dispatch_data_def
        console_log_def console_error_def store_dispatch_def
           split: option.splits sum.splits)

lemma mute_handleClose: "mute (handleClose c (mute w)) = mute (handleClose c w)"
  by (simp add: mute_def handleClose_def attemptReconnect_def console_log_def console_error_def
        store_dispatch_def setTimeout_def clearInterval_def Let_def split: option.splits)

lemma mute_handleError: "mute (handleError (mute w)) = mute (handleError w)"
  by (simp add: mute_def handleError_def console_error_def)

lemma mute_reconnect_callback:
  "mute (snd (reconnect_callback (mute w))) = mute (snd (reconnect_callback w))"
  by (simp add: mute_def reconnect_callback_def connect_def socket_readyState_def
        new_WebSocket_def console_log_def Let_def split: option.splits)

lemma mute_fields:
  "sockets (mute w) = sockets w"
  "timeouts (mute w) = timeouts w"
  "intervals (mute w) = intervals w"
  "set_readyState i r (mute w) = mute (set_readyState i r w)"
  "(mute w)\<lparr>timeouts := ts\<rparr> = mute (w\<lparr>timeouts := ts\<rparr>)"
  "(mute w)\<lparr>token := t\<rparr> = mute (w\<lparr>token := t\<rparr>)"
  "mute (mute w) = mute w"
  by (simp_all add: mute_def set_readyState_def)

lemma mute_fire_onopen: "mute (fire_onopen i (mute w)) = mute (fire_onopen i w)"
  by (simp add: fire_onopen_def mute_fields mute_handleOpen mute_send_authorization
           split: onopen_handler.splits)

lemma mute_step: "mute (step e (mute w)) = mute (step e w)"
  by (cases e)
     (simp_all add: mute_fields mute_connect mute_send mute_disconnect mute_fire_onopen
        mute_handleMessage mute_handleClose mute_handleError mute_reconnect_callback
        ping_callback_def)

lemma mute_run: "mute w = mute w' \<Longrightarrow> mute (run es w) = mute (run es w')"
proof (induction es arbitrary: w w')
  case Nil
  then show ?case by simp
next
  case (Cons e es)
  have "mute (step e w) = mute (step e (mute w))"
    by (rule mute_step [symmetric])
  also have "\<dots> = mute (step e (mute w'))"
    by (simp only: Cons.prems)
  also have "\<dots> = mute (step e w')"
    by (rule mute_step)
  finally have "mute (run es (step e w)) = mute (run es (step e w'))"
    by (rule Cons.IH)
  then show ?case by (simp only: run.simps)
qed

lemma mute_console_error: "mute (console_error s w) = mute w"
  by (simp add: mute_def console_error_def)

subsection \<open>send\<close>

lemma send_closed_result:
  "socket_readyState w \<noteq> Some OPEN \<Longrightarrow>
   send d w = (None, console_error ''WebSocket is not connected'' w)"
  by (simp add: send_def)

text \<open>
  C8. Whatever the data, \<open>send\<close> on a connection that is not OPEN returns normally, prints
  one error line and changes nothing else: no socket is written to. The data is kept
  nowhere: after any further events (a reconnection among them) the state is, console
  apart, the one the same events produce had \<open>send\<close> never been called, so every socket has
  been written the same data.
\<close>

theorem send_not_open_drops:
  assumes "socket_readyState w \<noteq> Some OPEN"
  shows "send d w = (None, w\<lparr>console := console w @ [ConsoleError ''WebSocket is not connected'']\<rparr>)
   \<and> sockets (snd (send d w)) = sockets w
   \<and> mute (run es (snd (send d w))) = mute (run es w)
   \<and> sockets (run es (snd (send d w))) = sockets (run es w)"
proof -
  have s: "send d w = (None, console_error ''WebSocket is not connected'' w)"
    using assms by (rule send_closed_result)
  have m: "mute (run es (console_error ''WebSocket is not connected'' w)) = mute (run es w)"
    by (rule mute_run) (rule mute_console_error)
  then have "sockets (mute (run es (console_error ''WebSocket is not connected'' w)))
             = sockets (mute (run es w))"
    by (rule arg_cong)
  then have r: "sockets (run es (console_error ''WebSocket is not connected'' w)) = sockets (run es w)"
    by (simp only: mute_fields)
  have c: "console_error ''WebSocket is not connected'' w
           = w\<lparr>console := console w @ [ConsoleError ''WebSocket is not connected'']\<rparr>"
    by (simp add: console_error_def)
  have k: "sockets (console_error ''WebSocket is not connected'' w) = sockets w"
    by (simp add: console_error_def)
  show ?thesis
    using m r k by (simp add: s c)
qed

theorem send_not_open_drops_witness:
  "socket_readyState (run [Connect ''u''] (new_service None ''ws://h'' accepts_all)) \<noteq> Some OPEN
   \<and> written (sockets (run [SockOpen 0]
        (snd (send (JStr ''hello'') (run [Connect ''u''] (new_service None ''ws://h'' accepts_all))))) ! 0) = []
   \<and> console (snd (send (JStr ''hello'') (run [Connect ''u''] (new_service None ''ws://h'' accepts_all))))
       = [ConsoleError ''WebSocket is not connected'']"
  using send_not_open_drops[of "run [Connect ''u''] (new_service None ''ws://h'' accepts_all)"
          "JStr ''hello''" "[SockOpen 0]"]
  by (simp add: new_service_def accepts_all_def platform_defs method_defs Let_def)

subsection \<open>handleMessage\<close>

text \<open>
  C9. A message that does not parse, whose parse is null, that has no \<open>type\<close>, or whose
  \<open>type\<close> is not a label of the \<open>switch\<close>, reaches no sink: nothing is dispatched.
  \<open>handleMessage\<close> returns normally (its result is a state, the \<open>catch\<close> being part of it),
  prints exactly one line on the console and leaves every other part of the state, the
  socket, the timers and the attempt counter among them, as it was. (A pong, the label
  with the empty entry, is not such a message: it changes nothing at all.)
\<close>

theorem handleMessage_unrouted_dropped:
  assumes a: "message_type m \<notin> set (map (\<lambda>t. Some (JStr t)) registered_types)"
  shows "dispatched (handleMessage m w) = dispatched w
   \<and> handleMessage m w = w\<lparr>console := console w @ [diagnostic m]\<rparr>
   \<and> socket (handleMessage m w) = socket w
   \<and> sockets (handleMessage m w) = sockets w
   \<and> timeouts (handleMessage m w) = timeouts w
   \<and> intervals (handleMessage m w) = intervals w
   \<and> pingInterval (handleMessage m w) = pingInterval w
   \<and> reconnectAttempts (handleMessage m w) = reconnectAttempts w
   \<and> handleMessage (Some (JObj [(''type'', JStr ''pong'')])) w = w"
proof -
  have "handleMessage m w = w\<lparr>console := console w @ [diagnostic m]\<rparr>"
  proof (cases m)
    case None
    then show ?thesis
      by (simp add: handleMessage_def handleMessage_try_def diagnostic_def console_error_def)
  next
    case (Some msg)
    show ?thesis
    proof (cases msg)
      case JNull
      with Some show ?thesis
        by (simp add: handleMessage_def handleMessage_try_def diagnostic_def console_error_def)
    next
      case (JObj kvs)
      with Some a show ?thesis
        by (simp add: handleMessage_def handleMessage_try_def diagnostic_def message_type_def
              console_log_def registered_types_def)
    qed (use Some in \<open>simp_all add: handleMessage_def handleMessage_try_def diagnostic_def
              console_log_def\<close>)
  qed
  moreover have "handleMessage (Some (JObj [(''type'', JStr ''pong'')])) w = w"
    by (simp add: handleMessage_def handleMessage_try_def)
  ultimately show ?thesis
    by simp
qed

theorem handleMessage_unrouted_dropped_witness:
  "message_type (Some (JObj [(''type'', JStr ''unknown-xyz'')]))
     \<notin> set (map (\<lambda>t. Some (JStr t)) registered_types)
   \<and> dispatched (handleMessage (Some (JObj [(''type'', JStr ''unknown-xyz'')]))
        (new_service None ''ws://h'' accepts_all)) = []
   \<and> console (handleMessage (Some (JObj [(''type'', JStr ''unknown-xyz'')]))
        (new_service None ''ws://h'' accepts_all)) = [ConsoleLog ''Unhandled message type:'']
   \<and> message_type None \<notin> set (map (\<lambda>t. Some (JStr t)) registered_types)
   \<and> console (handleMessage None (new_service None ''ws://h'' accepts_all))
       = [ConsoleError ''Error parsing WebSocket message:'']
   \<and> message_type (Some (JObj [(''data'', JNum 1)]))
       \<notin> set (map (\<lambda>t. Some (JStr t)) registered_types)
   \<and> console (handleMessage (Some (JObj [(''data'', JNum 1)])) (new_service None ''ws://h'' accepts_all))
       = [ConsoleLog ''Unhandled message type:'']"
  using handleMessage_unrouted_dropped[of "Some (JObj [(''type'', JStr ''unknown-xyz'')])"
          "new_service None ''ws://h'' accepts_all"]
    handleMessage_unrouted_dropped[of None "new_service None ''ws://h'' accepts_all"]
    handleMessage_unrouted_dropped[of "Some (JObj [(''data'', JNum 1)])"
          "new_service None ''ws://h'' accepts_all"]
  by (simp add: message_type_def registered_types_def new_service_def diagnostic_def)

subsection \<open>The reconnection counter and delay\<close>
























subsection \<open>Close and error events\<close>










subsection \<open>connect\<close>

text \<open>
  C7, as the code has it. The connection is OPEN for \<open>alice\<close>; \<open>connect\<close> for \<open>bob\<close> leaves
  the stored identity, the socket and its URL as they were: the socket is not closed and
  no other one is constructed.
\<close>

theorem connect_other_identity_ignored:
  "userId (snd (connect (Some ''bob'')
      (run [Connect ''alice'', SockOpen 0] (new_service None ''ws://h'' accepts_all)))) = Some ''alice''
   \<and> socket (snd (connect (Some ''bob'')
      (run [Connect ''alice'', SockOpen 0] (new_service None ''ws://h'' accepts_all)))) = Some 0
   \<and> map readyState (sockets (snd (connect (Some ''bob'')
      (run [Connect ''alice'', SockOpen 0] (new_service None ''ws://h'' accepts_all))))) = [OPEN]
   \<and> map close_request (sockets (snd (connect (Some ''bob'')
      (run [Connect ''alice'', SockOpen 0] (new_service None ''ws://h'' accepts_all))))) = [None]
   \<and> map url (sockets (snd (connect (Some ''bob'')
      (run [Connect ''alice'', SockOpen 0] (new_service None ''ws://h'' accepts_all)))))
       = [''ws://h/ws/alice'']"
  by (simp add: new_service_def accepts_all_def platform_defs method_defs Let_def)

text \<open>
  C7, amended. While the connection is OPEN, \<open>connect\<close> is a no-op whatever the identity.
  Otherwise, on a URL the constructor accepts, it stores the identity and makes the socket
  field refer to a new WebSocket object, CONNECTING, for the URL of that identity; the
  objects constructed before are left as they are.
\<close>

theorem connect_when_open:
  "(socket_readyState w = Some OPEN \<longrightarrow> connect uid w = (None, w))
  \<and> (socket_readyState w \<noteq> Some OPEN \<and> url_ok w (ws_base w @ ''/ws/'' @ template uid) \<longrightarrow>
       fst (connect uid w) = None
     \<and> userId (snd (connect uid w)) = uid
     \<and> socket (snd (connect uid w)) = Some (length (sockets w))
     \<and> length (sockets (snd (connect uid w))) = Suc (length (sockets w))
     \<and> socket_readyState (snd (connect uid w)) = Some CONNECTING
     \<and> url (sockets (snd (connect uid w)) ! length (sockets w)) = ws_base w @ ''/ws/'' @ template uid
     \<and> take (length (sockets w)) (sockets (snd (connect uid w))) = sockets w)"
  by (simp add: connect_def socket_readyState_def new_WebSocket_def Let_def nth_append)

theorem connect_when_open_witness:
  "socket_readyState (run [Connect ''alice'', SockOpen 0] (new_service None ''ws://h'' accepts_all))
     = Some OPEN
   \<and> connect (Some ''alice'') (run [Connect ''alice'', SockOpen 0] (new_service None ''ws://h'' accepts_all))
      = (None, run [Connect ''alice'', SockOpen 0] (new_service None ''ws://h'' accepts_all))
   \<and> socket_readyState (new_service None ''ws://h'' accepts_all) \<noteq> Some OPEN
   \<and> url_ok (new_service None ''ws://h'' accepts_all)
        (ws_base (new_service None ''ws://h'' accepts_all) @ ''/ws/'' @ template (Some ''alice''))
   \<and> socket_readyState (snd (connect (Some ''alice'') (new_service None ''ws://h'' accepts_all)))
      = Some CONNECTING"
  using connect_when_open[of "run [Connect ''alice'', SockOpen 0] (new_service None ''ws://h'' accepts_all)"
          "Some ''alice''"]
     connect_when_open[of "new_service None ''ws://h'' accepts_all" "Some ''alice''"]
  by (simp add: new_service_def accepts_all_def platform_defs method_defs Let_def)

subsection \<open>The keepalive timer\<close>

lemma send_quiet:
  "timeouts (snd (send d w)) = timeouts w
   \<and> socket (snd (send d w)) = socket w
   \<and> map readyState (sockets (snd (send d w))) = map readyState (sockets w)
   \<and> reconnectAttempts (snd (send d w)) = reconnectAttempts w
   \<and> intervals (snd (send d w)) = intervals w
   \<and> dispatched (snd (send d w)) = dispatched w"
  by (simp add: send_def ws_send_def console_error_def map_update list_update_same_conv
           split: option.splits ready_state.splits)

lemma send_open:
  "socket w = Some i \<Longrightarrow> socket_readyState w = Some OPEN \<Longrightarrow>
   written (sockets (snd (send d w)) ! i) = written (sockets w ! i) @ [d]
   \<and> socket_readyState (snd (send d w)) = Some OPEN"
  by (simp add: send_def ws_send_def socket_readyState_def split: if_splits)

lemma tick_quiet:
  "timeouts (step (IntervalFire h) w) = timeouts w
   \<and> socket (step (IntervalFire h) w) = socket w
   \<and> map readyState (sockets (step (IntervalFire h) w)) = map readyState (sockets w)
   \<and> reconnectAttempts (step (IntervalFire h) w) = reconnectAttempts w
   \<and> intervals (step (IntervalFire h) w) = intervals w
   \<and> dispatched (step (IntervalFire h) w) = dispatched w"
  using send_quiet[of ping w] by (simp add: ping_callback_def)

lemma ticks_quiet:
  "timeouts (run (replicate n (IntervalFire h)) w) = timeouts w
   \<and> socket (run (replicate n (IntervalFire h)) w) = socket w
   \<and> map readyState (sockets (run (replicate n (IntervalFire h)) w)) = map readyState (sockets w)
   \<and> reconnectAttempts (run (replicate n (IntervalFire h)) w) = reconnectAttempts w
   \<and> intervals (run (replicate n (IntervalFire h)) w) = intervals w
   \<and> dispatched (run (replicate n (IntervalFire h)) w) = dispatched w"
proof (induction n arbitrary: w)
  case 0
  show ?case by simp
next
  case (Suc n)
  show ?case
    using Suc.IH[of "step (IntervalFire h) w"] tick_quiet[of h w] by simp
qed

lemma ticks_written:
  "h \<in> set (intervals w) \<Longrightarrow> socket w = Some i \<Longrightarrow> socket_readyState w = Some OPEN \<Longrightarrow>
   written (sockets (run (replicate n (IntervalFire h)) w) ! i)
     = written (sockets w ! i) @ replicate n ping"
proof (induction n arbitrary: w)
  case 0
  show ?case by simp
next
  case (Suc n)
  let ?w = "step (IntervalFire h) w"
  have s: "?w = snd (send ping w)"
    using Suc.prems(1) by (simp add: ping_callback_def)
  have a: "h \<in> set (intervals ?w)" and b: "socket ?w = Some i"
    using tick_quiet[of h w] Suc.prems by simp_all
  have o: "socket_readyState ?w = Some OPEN"
    and w: "written (sockets ?w ! i) = written (sockets w ! i) @ [ping]"
    using send_open[OF Suc.prems(2,3), of ping] s by simp_all
  have "written (sockets (run (replicate n (IntervalFire h)) ?w) ! i)
     = written (sockets ?w ! i) @ replicate n ping"
    using a b o by (rule Suc.IH)
  then show ?case
    using w by (simp add: replicate_app_Cons_same)
qed

lemma pong_ignored: "handleMessage (Some (JObj [(''type'', JStr ''pong'')])) w = w"
  by (simp add: handleMessage_def handleMessage_try_def)

text \<open>
  C4, as the code has it. The connection is OPEN and the keepalive timer fires three times
  with no traffic from the server in between: no reconnect timer is pending, the socket is
  still the open one, and all that happened is that three pings were written to it.
\<close>

theorem silence_never_reconnects:
  "timeouts (run [Connect ''u'', SockOpen 0, IntervalFire 1, IntervalFire 1, IntervalFire 1]
      (new_service None ''ws://h'' accepts_all)) = []
   \<and> socket_readyState (run [Connect ''u'', SockOpen 0, IntervalFire 1, IntervalFire 1, IntervalFire 1]
      (new_service None ''ws://h'' accepts_all)) = Some OPEN
   \<and> map written (sockets (run [Connect ''u'', SockOpen 0, IntervalFire 1, IntervalFire 1, IntervalFire 1]
      (new_service None ''ws://h'' accepts_all))) = [ [ping, ping, ping] ]
   \<and> console (run [Connect ''u'', SockOpen 0, IntervalFire 1, IntervalFire 1, IntervalFire 1]
      (new_service None ''ws://h'' accepts_all)) = [ConsoleLog ''WebSocket connected'']"
  by (simp add: new_service_def accepts_all_def platform_defs method_defs Let_def)

text \<open>
  C4, amended. However many times in a row the keepalive timer fires, with no event of the
  transport in between, no reconnect timer is scheduled, the socket field and the ready
  state of every socket stay as they were, the attempt counter is unchanged and nothing is
  dispatched: while the connection is OPEN each firing writes one ping to the socket, and
  that is all. A pong changes nothing at all, so its absence changes nothing either.
\<close>

theorem keepalive_only_pings:
  "timeouts (run (replicate n (IntervalFire h)) w) = timeouts w
   \<and> socket (run (replicate n (IntervalFire h)) w) = socket w
   \<and> map readyState (sockets (run (replicate n (IntervalFire h)) w)) = map readyState (sockets w)
   \<and> reconnectAttempts (run (replicate n (IntervalFire h)) w) = reconnectAttempts w
   \<and> dispatched (run (replicate n (IntervalFire h)) w) = dispatched w
   \<and> (h \<in> set (intervals w) \<and> socket w = Some i \<and> socket_readyState w = Some OPEN \<longrightarrow>
        written (sockets (run (replicate n (IntervalFire h)) w) ! i)
          = written (sockets w ! i) @ replicate n ping)
   \<and> step (SockMessage j (Some (JObj [(''type'', JStr ''pong'')]))) w = w"
  using ticks_quiet[of n h w] ticks_written[of h w i n] pong_ignored[of w]
  by simp

theorem keepalive_only_pings_witness:
  "1 \<in> set (intervals (run [Connect ''u'', SockOpen 0] (new_service None ''ws://h'' accepts_all)))
   \<and> socket (run [Connect ''u'', SockOpen 0] (new_service None ''ws://h'' accepts_all)) = Some 0
   \<and> socket_readyState (run [Connect ''u'', SockOpen 0] (new_service None ''ws://h'' accepts_all))
       = Some OPEN
   \<and> written (sockets (run (replicate 2 (IntervalFire 1))
        (run [Connect ''u'', SockOpen 0] (new_service None ''ws://h'' accepts_all))) ! 0) = [ping, ping]"
  using keepalive_only_pings[of 2 1
          "run [Connect ''u'', SockOpen 0] (new_service None ''ws://h'' accepts_all)" 0]
  by (simp add: new_service_def accepts_all_def platform_defs method_defs Let_def numeral_2_eq_2)

subsection \<open>Where the code departs from its own design\<close>

lemma send_authorization_timers:
  "pingInterval (snd (send_authorization t w)) = pingInterval w
   \<and> intervals (snd (send_authorization t w)) = intervals w
   \<and> backoff (snd (send_authorization t w)) = backoff w"
  by (simp add: send_authorization_def ws_send_def backoff_def
           split: option.splits ready_state.splits)

lemma disconnect_timeouts: "timeouts (snd (disconnect w)) = timeouts w"
  by (simp add: disconnect_def ws_close_def clearInterval_def
           split: option.splits ready_state.splits)

text \<open>
  C1. With a token in the store, \<open>connect\<close> replaces the \<open>onopen\<close> it has just set to
  \<open>handleOpen\<close> by the closure that sends the token, and that closure arms no timer in
  any state. When the transport opens, the authorization message is the first and only
  data written to the socket, but \<open>handleOpen\<close> never runs: no interval is armed and
  \<open>pingInterval\<close> stays null. Without a token it is the other way round: the keepalive
  timer is armed and nothing is written.
\<close>

theorem open_with_token_starts_no_keepalive:
  "pingInterval (snd (send_authorization t w)) = pingInterval w
   \<and> intervals (snd (send_authorization t w)) = intervals w
   \<and> socket_readyState (run [Connect ''u'', SockOpen 0]
      (new_service (Some ''tok'') ''ws://h'' accepts_all)) = Some OPEN
   \<and> map written (sockets (run [Connect ''u'', SockOpen 0]
      (new_service (Some ''tok'') ''ws://h'' accepts_all)))
       = [ [JObj [(''authorization'', JStr ''Bearer tok'')]] ]
   \<and> pingInterval (run [Connect ''u'', SockOpen 0]
      (new_service (Some ''tok'') ''ws://h'' accepts_all)) = None
   \<and> intervals (run [Connect ''u'', SockOpen 0]
      (new_service (Some ''tok'') ''ws://h'' accepts_all)) = []
   \<and> map written (sockets (run [Connect ''u'', SockOpen 0]
      (new_service None ''ws://h'' accepts_all))) = [ [] ]
   \<and> pingInterval (run [Connect ''u'', SockOpen 0]
      (new_service None ''ws://h'' accepts_all)) = Some 1
   \<and> intervals (run [Connect ''u'', SockOpen 0]
      (new_service None ''ws://h'' accepts_all)) = [1]"
proof -
  have "socket_readyState (run [Connect ''u'', SockOpen 0]
      (new_service (Some ''tok'') ''ws://h'' accepts_all)) = Some OPEN
   \<and> map written (sockets (run [Connect ''u'', SockOpen 0]
      (new_service (Some ''tok'') ''ws://h'' accepts_all)))
       = [ [JObj [(''authorization'', JStr ''Bearer tok'')]] ]
   \<and> pingInterval (run [Connect ''u'', SockOpen 0]
      (new_service (Some ''tok'') ''ws://h'' accepts_all)) = None
   \<and> intervals (run [Connect ''u'', SockOpen 0]
      (new_service (Some ''tok'') ''ws://h'' accepts_all)) = []
   \<and> map written (sockets (run [Connect ''u'', SockOpen 0]
      (new_service None ''ws://h'' accepts_all))) = [ [] ]
   \<and> pingInterval (run [Connect ''u'', SockOpen 0]
      (new_service None ''ws://h'' accepts_all)) = Some 1
   \<and> intervals (run [Connect ''u'', SockOpen 0]
      (new_service None ''ws://h'' accepts_all)) = [1]"
    by (simp add: new_service_def accepts_all_def platform_defs method_defs Let_def)
  with send_authorization_timers[of t w] show ?thesis
    by (simp only: simp_thms)
qed

text \<open>
  C2. The connection closes abnormally, which schedules a reconnection in 1000 ms, and
  \<open>disconnect\<close> is called before the timer fires. The handle of the timeout was never
  kept, so \<open>disconnect\<close> leaves the timer pending, as it leaves every pending timeout in
  any state; when it fires, \<open>connect\<close> runs for the stored identity and the socket field
  refers to a new WebSocket object, CONNECTING.
\<close>

theorem disconnect_keeps_reconnect_timer:
  "timeouts (snd (disconnect w)) = timeouts w
   \<and> socket (run [Connect ''u'', SockClose 0 1006, Disconnect]
      (new_service (Some ''tok'') ''ws://h'' accepts_all)) = None
   \<and> timeouts (run [Connect ''u'', SockClose 0 1006, Disconnect]
      (new_service (Some ''tok'') ''ws://h'' accepts_all)) = [(1, 1000)]
   \<and> socket (run [Connect ''u'', SockClose 0 1006, Disconnect, TimeoutFire 1]
      (new_service (Some ''tok'') ''ws://h'' accepts_all)) = Some 1
   \<and> socket_readyState (run [Connect ''u'', SockClose 0 1006, Disconnect, TimeoutFire 1]
      (new_service (Some ''tok'') ''ws://h'' accepts_all)) = Some CONNECTING
   \<and> map url (sockets (run [Connect ''u'', SockClose 0 1006, Disconnect, TimeoutFire 1]
      (new_service (Some ''tok'') ''ws://h'' accepts_all))) = [''ws://h/ws/u'', ''ws://h/ws/u'']"
proof -
  have "socket (run [Connect ''u'', SockClose 0 1006, Disconnect]
      (new_service (Some ''tok'') ''ws://h'' accepts_all)) = None
   \<and> timeouts (run [Connect ''u'', SockClose 0 1006, Disconnect]
      (new_service (Some ''tok'') ''ws://h'' accepts_all)) = [(1, 1000)]
   \<and> socket (run [Connect ''u'', SockClose 0 1006, Disconnect, TimeoutFire 1]
      (new_service (Some ''tok'') ''ws://h'' accepts_all)) = Some 1
   \<and> socket_readyState (run [Connect ''u'', SockClose 0 1006, Disconnect, TimeoutFire 1]
      (new_service (Some ''tok'') ''ws://h'' accepts_all)) = Some CONNECTING
   \<and> map url (sockets (run [Connect ''u'', SockClose 0 1006, Disconnect, TimeoutFire 1]
      (new_service (Some ''tok'') ''ws://h'' accepts_all))) = [''ws://h/ws/u'', ''ws://h/ws/u'']"
    by (simp add: new_service_def accepts_all_def platform_defs method_defs Let_def)
  with disconnect_timeouts[of w] show ?thesis
    by (simp only: simp_thms)
qed

end
